theory Spec2Isabelle
  imports Main "HOL-Library.Word"
begin

unbundle bit_operations_syntax

section \<open>The Z21 gateway (gateway.go)\<close>

text \<open>
  The gateway bridges one Z21 device connection to a NATS bus. The device library
  (z21.go), the bus client (nats.go), the JSON encoder and the clock are collaborators
  of the gateway: their answers are taken as parameters (the record \<open>env\<close>), and the
  calls the gateway makes on them are recorded, in order, in the gateway state.
  Logging changes no state the gateway reads and is left out.
\<close>

subsection \<open>Constants (lines 17-21)\<close>

text \<open>A \<open>time.Duration\<close> counts nanoseconds.\<close>

definition Millisecond :: int where
  "Millisecond = 1000000"

definition Second :: int where
  "Second = 1000 * Millisecond"

definition HeartbeatInterval :: int where
  "HeartbeatInterval = 20 * Second"

definition RequestTimeout :: int where
  "RequestTimeout = 500 * Millisecond"

definition MaxConcurrentCommands :: nat where
  "MaxConcurrentCommands = 4"

subsection \<open>Values exchanged with the collaborators\<close>

text \<open>
  A \<open>context.Context\<close> as the gateway builds it: the background context, a
  cancellable child, a child with a timeout.
\<close>

datatype Context = Background | WithCancel Context | WithTimeout Context int

text \<open>
  The time after which a context expires by itself, if any: \<open>WithTimeout\<close> keeps the
  earlier of the parent's deadline and its own (both counted from the same moment).
\<close>

fun timeout_of :: "Context \<Rightarrow> int option" where
  "timeout_of Background = None"
| "timeout_of (WithCancel c) = timeout_of c"
| "timeout_of (WithTimeout c d) =
     (case timeout_of c of None \<Rightarrow> Some d | Some d' \<Rightarrow> Some (min d d'))"

text \<open>
  The values of the interface \<open>z21.Serializable\<close> as far as the gateway tells them
  apart: the serial number message (an integer, printed with \<open>%d\<close>), the broadcast
  flags message (a 32-bit mask), the CAN detector request decoded from a command
  payload, and any other device message. The contents the gateway never inspects are
  of an arbitrary type \<open>'a\<close>. A nil interface value is \<open>None\<close>.
\<close>

datatype 'a Serializable =
    SerialNumber int
  | BroadcastFlags "32 word"
  | CanDetector 'a
  | OtherMsg 'a

datatype BroadcastFlag = SYSTEM_UPDATES | CAN_DETECTOR_UPDATES

datatype json =
    JNull
  | JBool bool
  | JNum int
  | JStr string
  | JArr "json list"
  | JObj "(string \<times> json) list"

text \<open>A Go \<open>error\<close> is represented by its message, \<open>Inl\<close> in a result.\<close>

record 'a env =
  SendRcv :: "Context \<Rightarrow> 'a Serializable \<Rightarrow> string + 'a Serializable option"
  Unmarshal_CanDetector :: "string \<Rightarrow> string + 'a"
  Marshal_Serializable :: "'a Serializable \<Rightarrow> string + json"
  Publish :: "string \<Rightarrow> json \<Rightarrow> string option"
  Mask32 :: "BroadcastFlag \<Rightarrow> 32 word"
  now_utc :: string
  now_local :: string

text \<open>
  \<open>now_utc\<close> is \<open>time.Now().UTC().Format(time.RFC3339)\<close> and \<open>now_local\<close> is
  \<open>time.Now().Format(time.RFC3339)\<close> at the moment of the call.
\<close>

subsection \<open>The gateway and its messages (lines 23-53)\<close>

text \<open>
  The fields of \<open>Gateway\<close> that the functions read or change, and the calls made on
  the device connection \<open>zc\<close> and the bus connection \<open>nc\<close>. The semaphore \<open>sem\<close> is a
  channel of empty structs of capacity \<open>MaxConcurrentCommands\<close>: only the number of
  buffered tokens matters. \<open>onlineStatus\<close> is a channel of capacity 1, its buffer a
  list. \<open>cancelled\<close> says whether \<open>ctx\<close> is done.
\<close>

record 'a Gateway =
  name :: string
  ctx :: Context
  cancelled :: bool
  sem :: nat
  onlineStatus :: "bool list"
  isOnline :: bool
  zc_calls :: "(Context \<times> 'a Serializable) list"
  nc_calls :: "(string \<times> json \<times> string option) list"

record StatusMsg =
  Reachable :: bool
  Serial :: string
  status_TS :: string

record 'a CmdRequest =
  request_Type :: string
  request_Data :: "'a Serializable option"

record 'a CmdReply =
  reply_Type :: string
  Ok :: bool
  reply_Data :: "'a Serializable option"
  Error :: string
  reply_TS :: string

text \<open>A \<open>nats.Msg\<close>: subject, payload bytes, reply address (empty when absent).\<close>

record Msg =
  Subject :: string
  Data :: string
  Reply :: string

text \<open>\<open>NewGateway\<close> (lines 55-71): fails when the device connection fails.\<close>

definition NewGateway :: "string option \<Rightarrow> Context \<Rightarrow> string \<Rightarrow> string + 'a Gateway" where
  "NewGateway connect_err parent nm =
     (case connect_err of
        Some err \<Rightarrow> Inl err
      | None \<Rightarrow> Inr \<lparr>name = nm, ctx = WithCancel parent, cancelled = False, sem = 0,
                     onlineStatus = [], isOnline = False, zc_calls = [], nc_calls = []\<rparr>)"

subsection \<open>Printing an integer with \<open>%d\<close>\<close>

definition digit_char :: "nat \<Rightarrow> char" where
  "digit_char d = ''0123456789'' ! d"

fun dec_nat :: "nat \<Rightarrow> string" where
  "dec_nat n = (if n < 10 then [digit_char n] else dec_nat (n div 10) @ [digit_char (n mod 10)])"

declare dec_nat.simps [simp del]

definition dec_int :: "int \<Rightarrow> string" where
  "dec_int i = (if i < 0 then CHR ''-'' # dec_nat (nat (- i)) else dec_nat (nat i))"

subsection \<open>The reachability probe (lines 157-180)\<close>

definition checkReachability :: "'a env \<Rightarrow> 'a Gateway \<Rightarrow> StatusMsg \<times> 'a Gateway" where
  "checkReachability e g =
     (let c = WithTimeout (ctx g) RequestTimeout;
          req = SerialNumber 0;
          g' = g\<lparr>zc_calls := zc_calls g @ [(c, req)]\<rparr>;
          (reachable, serial) =
            (case SendRcv e c req of
               Inl err \<Rightarrow> (False, [])
             | Inr None \<Rightarrow> (False, [])
             | Inr (Some (SerialNumber sn)) \<Rightarrow> (True, dec_int sn)
             | Inr (Some _) \<Rightarrow> (False, []))
      in (\<lparr>Reachable = reachable, Serial = serial, status_TS = now_utc e\<rparr>, g'))"

subsection \<open>Encoding a struct as JSON\<close>

text \<open>
  \<open>json.Marshal\<close> on a struct reads the \<open>json\<close> tag of each field: the part before
  the first comma is the key (the field's own name when that part is empty or not a
  valid key), the comma-separated rest are options, and a field with the option
  \<open>omitempty\<close> is left out when its value is empty (false, the empty string, nil).
  A tag \<open>-\<close> hides the field. Letters, digits and the punctuation below, the colon
  among it, are valid in a key.
\<close>

definition parseTag :: "string \<Rightarrow> string \<times> string" where
  "parseTag tag =
     (takeWhile (\<lambda>c. c \<noteq> CHR '','') tag, drop 1 (dropWhile (\<lambda>c. c \<noteq> CHR '','') tag))"

fun split_commas :: "string \<Rightarrow> string list" where
  "split_commas [] = [[]]"
| "split_commas (c # cs) =
     (if c = CHR '','' then [] # split_commas cs
      else (case split_commas cs of [] \<Rightarrow> [[c]] | w # ws \<Rightarrow> (c # w) # ws))"

definition Contains :: "string \<Rightarrow> string \<Rightarrow> bool" where
  "Contains opts optionName = (opts \<noteq> [] \<and> optionName \<in> set (split_commas opts))"

definition tag_chars :: string where
  "tag_chars = ''!#$%&()*+-./:;<=>?@[]^_{|}~ ''
     @ ''abcdefghijklmnopqrstuvwxyz'' @ ''ABCDEFGHIJKLMNOPQRSTUVWXYZ'' @ ''0123456789''"

definition isValidTag :: "string \<Rightarrow> bool" where
  "isValidTag s = (s \<noteq> [] \<and> list_all (\<lambda>c. c \<in> set tag_chars) s)"

definition structField :: "string \<Rightarrow> string \<Rightarrow> bool \<Rightarrow> json \<Rightarrow> (string \<times> json) list" where
  "structField goName tag isEmpty v =
     (if tag = ''-'' then []
      else let (n, opts) = parseTag tag;
               key = (if isValidTag n then n else goName)
           in if Contains opts ''omitempty'' \<and> isEmpty then [] else [(key, v)])"

text \<open>\<open>StatusMsg\<close> (lines 36-40), with the tags as the source writes them.\<close>

definition marshal_StatusMsg :: "StatusMsg \<Rightarrow> string + json" where
  "marshal_StatusMsg s =
     Inr (JObj (structField ''Reachable'' ''reachable'' (\<not> Reachable s) (JBool (Reachable s))
              @ structField ''Serial'' ''serial:omitempty'' (Serial s = []) (JStr (Serial s))
              @ structField ''TS'' ''ts'' (status_TS s = []) (JStr (status_TS s))))"

text \<open>
  \<open>CmdReply\<close> (lines 47-53). The field \<open>Data\<close> holds an interface value: encoding it
  is the device library's, and may fail; then the whole encoding fails.
\<close>

definition marshal_CmdReply :: "'a env \<Rightarrow> 'a CmdReply \<Rightarrow> string + json" where
  "marshal_CmdReply e r =
     (case (case reply_Data r of None \<Rightarrow> Inr JNull | Some d \<Rightarrow> Marshal_Serializable e d) of
        Inl err \<Rightarrow> Inl err
      | Inr dj \<Rightarrow>
          Inr (JObj (structField ''Type'' ''type'' (reply_Type r = []) (JStr (reply_Type r))
                   @ structField ''Ok'' ''ok'' (\<not> Ok r) (JBool (Ok r))
                   @ structField ''Data'' ''reply,omitempty'' (reply_Data r = None) dj
                   @ structField ''Error'' ''error,omitempty'' (Error r = []) (JStr (Error r))
                   @ structField ''TS'' ''ts'' (reply_TS r = []) (JStr (reply_TS r)))))"

definition json_keys :: "json \<Rightarrow> string list" where
  "json_keys j = (case j of JObj kvs \<Rightarrow> map fst kvs | _ \<Rightarrow> [])"

subsection \<open>Calls on the collaborators\<close>

text \<open>\<open>g.nc.Publish(subject, data)\<close>: the call is recorded with the error it returned.\<close>

definition nc_Publish :: "'a env \<Rightarrow> string \<Rightarrow> json \<Rightarrow> 'a Gateway \<Rightarrow> string option \<times> 'a Gateway" where
  "nc_Publish e subject data g =
     (let err = Publish e subject data
      in (err, g\<lparr>nc_calls := nc_calls g @ [(subject, data, err)]\<rparr>))"

text \<open>
  A send in a \<open>select\<close> with an empty \<open>default\<close>, on a channel with a buffer of \<open>cap\<close>
  values: the value is buffered when there is room and dropped otherwise.
\<close>

definition try_send :: "nat \<Rightarrow> 'b \<Rightarrow> 'b list \<Rightarrow> 'b list" where
  "try_send cap v buf = (if length buf < cap then buf @ [v] else buf)"

subsection \<open>The heartbeat (lines 105-155)\<close>

definition doHeartbeatCheck :: "'a env \<Rightarrow> 'a Gateway \<Rightarrow> 'a Gateway" where
  "doHeartbeatCheck e g =
     (let (status, g1) = checkReachability e g;
          wasOnline = isOnline g1;
          g2 = (if Reachable status \<noteq> wasOnline
                then g1\<lparr>isOnline := Reachable status,
                        onlineStatus := try_send 1 (Reachable status) (onlineStatus g1)\<rparr>
                else g1)
      in case marshal_StatusMsg status of
           Inl err \<Rightarrow> g2
         | Inr data \<Rightarrow>
             (case nc_Publish e (''z21.'' @ name g2 @ ''.status'') data g2 of
                (Some err, g3) \<Rightarrow> g3
              | (None, g3) \<Rightarrow> g3))"

text \<open>
  \<open>heartbeatLoop\<close>: one check at once, then one per tick of the ticker until the
  context is done. The environment of each check is given, the first one apart.
\<close>

fun heartbeat_ticks :: "'a env list \<Rightarrow> 'a Gateway \<Rightarrow> 'a Gateway" where
  "heartbeat_ticks [] g = g"
| "heartbeat_ticks (e # es) g = heartbeat_ticks es (doHeartbeatCheck e g)"

definition heartbeatLoop :: "'a env \<Rightarrow> 'a env list \<Rightarrow> 'a Gateway \<Rightarrow> 'a Gateway" where
  "heartbeatLoop e0 ticks g = heartbeat_ticks ticks (doHeartbeatCheck e0 g)"

subsection \<open>Arming the broadcast subscription (lines 182-200, 238-247)\<close>

definition subscribeBroadcast :: "'a env \<Rightarrow> 'a Gateway \<Rightarrow> 'a Gateway" where
  "subscribeBroadcast e g =
     (let c = Background;
          flags = Mask32 e SYSTEM_UPDATES;
          flags = flags OR Mask32 e CAN_DETECTOR_UPDATES;
          req = BroadcastFlags flags;
          g' = g\<lparr>zc_calls := zc_calls g @ [(c, req)]\<rparr>
      in case SendRcv e c req of
           Inl err \<Rightarrow> g'
         | Inr resp \<Rightarrow> g')"

text \<open>
  The body of \<open>monitorOnlineStatus\<close> for one value received from \<open>onlineStatus\<close>.
\<close>

definition monitor_received :: "'a env \<Rightarrow> bool \<Rightarrow> 'a Gateway \<Rightarrow> 'a Gateway" where
  "monitor_received e isOn g = (if isOn then subscribeBroadcast e g else g)"

text \<open>
  One turn of the loop of \<open>monitorOnlineStatus\<close>: it returns when the context is done
  (\<open>Inl\<close>), takes the buffered notification when there is one, and blocks otherwise
  (\<open>None\<close>). When both cases of the \<open>select\<close> are ready, \<open>take_done\<close> says which the
  runtime chose.
\<close>

definition monitorOnlineStatus_turn ::
  "'a env \<Rightarrow> bool \<Rightarrow> 'a Gateway \<Rightarrow> ('a Gateway + 'a Gateway) option" where
  "monitorOnlineStatus_turn e take_done g =
     (case onlineStatus g of
        [] \<Rightarrow> (if cancelled g then Some (Inl g) else None)
      | isOn # rest \<Rightarrow>
          (if cancelled g \<and> take_done then Some (Inl g)
           else Some (Inr (monitor_received e isOn (g\<lparr>onlineStatus := rest\<rparr>)))))"

subsection \<open>The command dispatcher, one message at a time (lines 264-353)\<close>

definition discover_subject :: "'a Gateway \<Rightarrow> string" where
  "discover_subject g = ''z21.'' @ name g @ ''.cmd.can.discover''"

definition handleError :: "'a env \<Rightarrow> string \<Rightarrow> 'a CmdReply" where
  "handleError e err =
     \<lparr>reply_Type = [], Ok = False, reply_Data = None,
      Error = ''invalid message: '' @ err, reply_TS = now_local e\<rparr>"

text \<open>
  \<open>handleRequest\<close> in two parts: the reply built from what \<open>SendRcv\<close> returned
  (lines 338-352), and the whole function, which makes the call first.
\<close>

definition handleRequest_reply :: "'a env \<Rightarrow> string + 'a Serializable option \<Rightarrow> 'a CmdReply" where
  "handleRequest_reply e r =
     (let reply = \<lparr>reply_Type = [], Ok = False, reply_Data = None, Error = [],
                   reply_TS = now_local e\<rparr>
      in case r of
           Inl err \<Rightarrow> reply\<lparr>Ok := False, Error := err\<rparr>
         | Inr resp \<Rightarrow> reply\<lparr>Ok := True, reply_Data := resp\<rparr>)"

definition handleRequest :: "'a env \<Rightarrow> 'a Gateway \<Rightarrow> 'a Serializable \<Rightarrow> 'a CmdReply \<times> 'a Gateway" where
  "handleRequest e g req =
     (let c = WithTimeout (ctx g) RequestTimeout;
          g' = g\<lparr>zc_calls := zc_calls g @ [(c, req)]\<rparr>
      in (handleRequest_reply e (SendRcv e c req), g'))"

text \<open>The composite literal \<open>CmdReply{}\<close>: every field has its zero value.\<close>

definition CmdReply_zero :: "'a CmdReply" where
  "CmdReply_zero = \<lparr>reply_Type = [], Ok = False, reply_Data = None, Error = [], reply_TS = []\<rparr>"

definition doCmdRequest :: "'a env \<Rightarrow> 'a Gateway \<Rightarrow> Msg \<Rightarrow> 'a CmdReply \<times> 'a Gateway" where
  "doCmdRequest e g msg =
     (if Subject msg = discover_subject g
      then (case Unmarshal_CanDetector e (Data msg) of
              Inl err \<Rightarrow> (handleError e err, g)
            | Inr req \<Rightarrow> handleRequest e g (CanDetector req))
      else (CmdReply_zero, g))"

definition reply_subject :: "'a Gateway \<Rightarrow> Msg \<Rightarrow> string" where
  "reply_subject g msg = (if Reply msg \<noteq> [] then Reply msg else ''z21.'' @ name g @ ''.reply'')"

text \<open>Lines 273-297 of \<open>handleCmdMessage\<close>: encode the reply and publish it.\<close>

definition publishReply :: "'a env \<Rightarrow> Msg \<Rightarrow> 'a CmdReply \<Rightarrow> 'a Gateway \<Rightarrow> 'a Gateway" where
  "publishReply e msg reply g =
     (case marshal_CmdReply e reply of
        Inl err \<Rightarrow> g
      | Inr data \<Rightarrow>
          (case nc_Publish e (reply_subject g msg) data g of
             (Some err, g') \<Rightarrow> g'
           | (None, g') \<Rightarrow> g'))"

text \<open>
  \<open>handleCmdMessage\<close> run without interruption. The \<open>select\<close> takes a slot when the
  semaphore has room, returns when the context is done, and blocks (\<open>None\<close>) when
  neither holds; when both hold, \<open>take_done\<close> says which the runtime chose. The
  deferred receive gives the slot back on every return after the acquisition.
\<close>

definition handleCmdMessage :: "'a env \<Rightarrow> bool \<Rightarrow> 'a Gateway \<Rightarrow> Msg \<Rightarrow> 'a Gateway option" where
  "handleCmdMessage e take_done g msg =
     (if sem g < MaxConcurrentCommands \<and> \<not> (cancelled g \<and> take_done)
      then (let g1 = g\<lparr>sem := sem g + 1\<rparr>;
                (reply, g2) = doCmdRequest e g1 msg;
                g3 = publishReply e msg reply g2
            in Some (g3\<lparr>sem := sem g3 - 1\<rparr>))
      else if cancelled g then Some g
      else None)"

subsection \<open>The dispatcher's units of work, interleaved\<close>

text \<open>
  \<open>natsCommandsLoop\<close> starts one goroutine per message (line 255). Where such a unit
  stands in \<open>handleCmdMessage\<close>: blocked in the \<open>select\<close>; returned without a slot;
  holding a slot, before \<open>doCmdRequest\<close>; inside \<open>SendRcv\<close>, the request sent and the
  answer awaited; the reply built, before it is encoded and published; returned, the
  slot given back.
\<close>

datatype 'a unit_state =
    AtSelect Msg
  | Abandoned
  | Holding Msg
  | InFlight Msg Context "'a Serializable"
  | Replying Msg "'a CmdReply"
  | Released

text \<open>The next step of one unit; a unit that is blocked or has returned stays.\<close>

fun unit_step :: "'a env \<Rightarrow> bool \<Rightarrow> 'a Gateway \<Rightarrow> 'a unit_state \<Rightarrow> 'a Gateway \<times> 'a unit_state" where
  "unit_step e take_done g (AtSelect m) =
     (if sem g < MaxConcurrentCommands \<and> \<not> (cancelled g \<and> take_done)
      then (g\<lparr>sem := sem g + 1\<rparr>, Holding m)
      else if cancelled g then (g, Abandoned)
      else (g, AtSelect m))"
| "unit_step e take_done g (Holding m) =
     (if Subject m = discover_subject g
      then (case Unmarshal_CanDetector e (Data m) of
              Inl err \<Rightarrow> (g, Replying m (handleError e err))
            | Inr req \<Rightarrow>
                (let c = WithTimeout (ctx g) RequestTimeout
                 in (g\<lparr>zc_calls := zc_calls g @ [(c, CanDetector req)]\<rparr>,
                     InFlight m c (CanDetector req))))
      else (g, Replying m CmdReply_zero))"
| "unit_step e take_done g (InFlight m c req) =
     (g, Replying m (handleRequest_reply e (SendRcv e c req)))"
| "unit_step e take_done g (Replying m reply) =
     (let g' = publishReply e m reply g in (g'\<lparr>sem := sem g' - 1\<rparr>, Released))"
| "unit_step e take_done g Abandoned = (g, Abandoned)"
| "unit_step e take_done g Released = (g, Released)"

text \<open>
  The gateway with its units. What can happen next: a message arrives, the context is
  cancelled, unit \<open>i\<close> takes its next step, the heartbeat makes a check, the monitor
  takes a turn. Each step carries the environment it meets.
\<close>

record 'a system =
  gateway :: "'a Gateway"
  units :: "'a unit_state list"

datatype 'a action =
    Arrive Msg
  | Cancel
  | Step nat bool "'a env"
  | Heartbeat "'a env"
  | Monitor bool "'a env"

fun system_step :: "'a system \<Rightarrow> 'a action \<Rightarrow> 'a system" where
  "system_step s (Arrive m) = s\<lparr>units := units s @ [AtSelect m]\<rparr>"
| "system_step s Cancel = s\<lparr>gateway := (gateway s)\<lparr>cancelled := True\<rparr>\<rparr>"
| "system_step s (Step i take_done e) =
     (if i < length (units s)
      then (let (g', u') = unit_step e take_done (gateway s) (units s ! i)
            in \<lparr>gateway = g', units = (units s)[i := u']\<rparr>)
      else s)"
| "system_step s (Heartbeat e) = s\<lparr>gateway := doHeartbeatCheck e (gateway s)\<rparr>"
| "system_step s (Monitor take_done e) =
     (case monitorOnlineStatus_turn e take_done (gateway s) of
        Some (Inr g') \<Rightarrow> s\<lparr>gateway := g'\<rparr>
      | Some (Inl g') \<Rightarrow> s
      | None \<Rightarrow> s)"

definition run :: "'a action list \<Rightarrow> 'a system \<Rightarrow> 'a system" where
  "run acts s = foldl system_step s acts"

definition start :: "'a Gateway \<Rightarrow> 'a system" where
  "start g = \<lparr>gateway = g, units = []\<rparr>"

fun holds_slot :: "'a unit_state \<Rightarrow> bool" where
  "holds_slot (Holding m) = True"
| "holds_slot (InFlight m c req) = True"
| "holds_slot (Replying m reply) = True"
| "holds_slot u = False"

fun in_flight :: "'a unit_state \<Rightarrow> bool" where
  "in_flight (InFlight m c req) = True"
| "in_flight u = False"

definition holding :: "'a system \<Rightarrow> nat" where
  "holding s = length (filter holds_slot (units s))"

definition inflight :: "'a system \<Rightarrow> nat" where
  "inflight s = length (filter in_flight (units s))"

subsection \<open>What the subscription monitor logs\<close>

text \<open>
  The logger is zerolog's: \<open>g.logger.Error()\<close> starts an event of that level, \<open>Err\<close> adds
  the error as a field (\<open>Event_Err\<close>), and only \<open>Msg\<close> writes the event, as one line
  (\<open>Event_Msg\<close>). An event that is built and never given to \<open>Msg\<close> writes nothing.
\<close>

datatype Level = DebugLevel | InfoLevel | WarnLevel | ErrorLevel

record Event =
  ev_level :: Level
  ev_fields :: "(string \<times> string) list"

type_synonym log_line = "Level \<times> (string \<times> string) list \<times> string"

definition newEvent :: "Level \<Rightarrow> Event" where
  "newEvent l = \<lparr>ev_level = l, ev_fields = []\<rparr>"

definition Event_Err :: "string \<Rightarrow> Event \<Rightarrow> Event" where
  "Event_Err err ev = ev\<lparr>ev_fields := ev_fields ev @ [(''error'', err)]\<rparr>"

definition Event_Msg :: "string \<Rightarrow> Event \<Rightarrow> log_line list" where
  "Event_Msg m ev = [(ev_level ev, ev_fields ev, m)]"

text \<open>
  The lines that \<open>subscribeBroadcast\<close> writes (lines 238-247): in the error branch
  the event is built and dropped.
\<close>

definition subscribeBroadcast_log :: "'a env \<Rightarrow> 'a Gateway \<Rightarrow> log_line list" where
  "subscribeBroadcast_log e g =
     (let c = Background;
          flags = Mask32 e SYSTEM_UPDATES;
          flags = flags OR Mask32 e CAN_DETECTOR_UPDATES;
          req = BroadcastFlags flags
      in case SendRcv e c req of
           Inl err \<Rightarrow> (let ev = Event_Err err (newEvent ErrorLevel) in [])
         | Inr resp \<Rightarrow> [])"

text \<open>
  The lines that \<open>monitorOnlineStatus\<close> writes for one value received (lines 190-197).
  The dash in the first message is the three bytes of U+2014.
\<close>

definition online_message :: string where
  "online_message =
     ''Z21 is ONLINE '' @ [CHR 0xE2, CHR 0x80, CHR 0x94] @ '' sending broadcast subscription''"

definition monitor_received_log :: "'a env \<Rightarrow> bool \<Rightarrow> 'a Gateway \<Rightarrow> log_line list" where
  "monitor_received_log e isOn g =
     (if isOn then Event_Msg online_message (newEvent InfoLevel) @ subscribeBroadcast_log e g
      else Event_Msg ''Z21 is OFFLINE'' (newEvent WarnLevel))"

subsection \<open>A concrete gateway and concrete environments\<close>

text \<open>
  The gateway named \<open>main\<close> as \<open>NewGateway\<close> builds it, and three environments: a
  device that answers the probe with serial 12345 and a CAN detector request with a
  device message; a device that answers nothing in time; and a device whose answer
  the JSON encoder rejects. The decoder accepts the empty object and the payload
  \<open>typed_payload\<close>, an object whose only member is a type (a member that the target
  struct does not have is skipped by \<open>json.Unmarshal\<close>).
\<close>

definition typed_payload :: string where
  \<open>typed_payload = ''{"type":"discover"}''\<close>

definition main_gw :: "nat Gateway" where
  "main_gw = \<lparr>name = ''main'', ctx = WithCancel Background, cancelled = False, sem = 0,
              onlineStatus = [], isOnline = False, zc_calls = [], nc_calls = []\<rparr>"

definition up_env :: "nat env" where
  "up_env =
     \<lparr>SendRcv = (\<lambda>c req. case req of
                   SerialNumber n \<Rightarrow> Inr (Some (SerialNumber 12345))
                 | CanDetector d \<Rightarrow> Inr (Some (OtherMsg d))
                 | _ \<Rightarrow> Inr None),
      Unmarshal_CanDetector =
        (\<lambda>d. if d = ''{}'' \<or> d = typed_payload then Inr 7
             else Inl ''unexpected end of JSON input''),
      Marshal_Serializable =
        (\<lambda>m. case m of OtherMsg d \<Rightarrow> Inr (JNum (int d)) | _ \<Rightarrow> Inr JNull),
      Publish = (\<lambda>subject data. None),
      Mask32 = (\<lambda>f. case f of SYSTEM_UPDATES \<Rightarrow> 0x100 | CAN_DETECTOR_UPDATES \<Rightarrow> 0x80000),
      now_utc = ''2025-10-26T18:28:54Z'',
      now_local = ''2025-10-26T19:28:54+01:00''\<rparr>"

definition down_env :: "nat env" where
  "down_env = up_env\<lparr>SendRcv := (\<lambda>c req. Inl ''context deadline exceeded'')\<rparr>"

definition unencodable_env :: "nat env" where
  "unencodable_env =
     up_env\<lparr>Marshal_Serializable := (\<lambda>m. Inl ''json: unsupported value: NaN'')\<rparr>"

definition discover_msg :: Msg where
  "discover_msg = \<lparr>Subject = ''z21.main.cmd.can.discover'', Data = ''{}'', Reply = ''_INBOX.1''\<rparr>"

definition malformed_msg :: Msg where
  "malformed_msg = \<lparr>Subject = ''z21.main.cmd.can.discover'', Data = ''{'', Reply = []\<rparr>"

definition unknown_msg :: Msg where
  "unknown_msg = \<lparr>Subject = ''z21.main.cmd.loco.drive'', Data = ''{}'', Reply = []\<rparr>"

text \<open>A discover message whose payload carries the type \<open>discover\<close>.\<close>

definition typed_msg :: Msg where
  "typed_msg = \<lparr>Subject = ''z21.main.cmd.can.discover'', Data = typed_payload,
                Reply = ''_INBOX.1''\<rparr>"

subsection \<open>Runs of one unit, and a burst of five messages\<close>

text \<open>A unit taking \<open>n\<close> steps in a row, nothing else happening in between.\<close>

fun unit_steps ::
  "nat \<Rightarrow> 'a env \<Rightarrow> bool \<Rightarrow> 'a Gateway \<times> 'a unit_state \<Rightarrow> 'a Gateway \<times> 'a unit_state" where
  "unit_steps 0 e take_done gu = gu"
| "unit_steps (Suc n) e take_done gu =
     unit_steps n e take_done (unit_step e take_done (fst gu) (snd gu))"

text \<open>
  The slots in use are the units between acquisition and release, and they are at
  most \<open>MaxConcurrentCommands\<close>.
\<close>

definition slots_ok :: "'a system \<Rightarrow> bool" where
  "slots_ok s = (sem (gateway s) = holding s \<and> sem (gateway s) \<le> MaxConcurrentCommands)"

text \<open>
  Five discover messages arrive at once; every unit tries the \<open>select\<close>, then every
  unit takes one more step. Then unit 0 takes three steps: it gets its answer, it
  returns, and it stays returned. Then unit 4 takes two steps.
\<close>

definition burst :: "nat action list" where
  "burst =
     map Arrive [discover_msg, discover_msg, discover_msg, discover_msg, discover_msg]
     @ map (\<lambda>i. Step i False up_env) [0, 1, 2, 3, 4]
     @ map (\<lambda>i. Step i False up_env) [0, 1, 2, 3, 4]"

definition burst_next :: "nat action list" where
  "burst_next = map (\<lambda>i. Step i False up_env) [0, 0, 0]"

definition burst_refill :: "nat action list" where
  "burst_refill = map (\<lambda>i. Step i False up_env) [4, 4]"

section \<open>Properties\<close>

subsection \<open>The keys and options of the struct tags\<close>

lemma structField_type: "structField ''Type'' ''type'' b v = [(''type'', v)]"
  by (simp add: structField_def parseTag_def isValidTag_def tag_chars_def Contains_def)

lemma structField_ok: "structField ''Ok'' ''ok'' b v = [(''ok'', v)]"
  by (simp add: structField_def parseTag_def isValidTag_def tag_chars_def Contains_def)

lemma structField_ts: "structField ''TS'' ''ts'' b v = [(''ts'', v)]"
  by (simp add: structField_def parseTag_def isValidTag_def tag_chars_def Contains_def)

lemma structField_reachable: "structField ''Reachable'' ''reachable'' b v = [(''reachable'', v)]"
  by (simp add: structField_def parseTag_def isValidTag_def tag_chars_def Contains_def)

lemma structField_serial:
  "structField ''Serial'' ''serial:omitempty'' b v = [(''serial:omitempty'', v)]"
  by (simp add: structField_def parseTag_def isValidTag_def tag_chars_def Contains_def)

lemma structField_reply:
  "structField ''Data'' ''reply,omitempty'' b v = (if b then [] else [(''reply'', v)])"
  by (simp add: structField_def parseTag_def isValidTag_def tag_chars_def Contains_def)

lemma structField_error:
  "structField ''Error'' ''error,omitempty'' b v = (if b then [] else [(''error'', v)])"
  by (simp add: structField_def parseTag_def isValidTag_def tag_chars_def Contains_def)

lemmas structField_simps =
  structField_type structField_ok structField_ts structField_reachable
  structField_serial structField_reply structField_error

lemma marshal_StatusMsg_eq:
  "marshal_StatusMsg s =
     Inr (JObj [(''reachable'', JBool (Reachable s)),
                (''serial:omitempty'', JStr (Serial s)),
                (''ts'', JStr (status_TS s))])"
  by (simp add: marshal_StatusMsg_def structField_simps)

lemma marshal_CmdReply_nil:
  "reply_Data r = None \<Longrightarrow>
   marshal_CmdReply e r =
     Inr (JObj ([(''type'', JStr (reply_Type r)), (''ok'', JBool (Ok r))]
              @ (if Error r = [] then [] else [(''error'', JStr (Error r))])
              @ [(''ts'', JStr (reply_TS r))]))"
  by (simp add: marshal_CmdReply_def structField_simps)

lemma checkReachability_snd:
  "snd (checkReachability e g) =
     g\<lparr>zc_calls := zc_calls g @ [(WithTimeout (ctx g) RequestTimeout, SerialNumber 0)]\<rparr>"
  by (simp add: checkReachability_def Let_def split: prod.splits)

lemma doHeartbeatCheck_eq:
  "doHeartbeatCheck e g =
     (let st = fst (checkReachability e g);
          subject = ''z21.'' @ name g @ ''.status'';
          data = JObj [(''reachable'', JBool (Reachable st)),
                       (''serial:omitempty'', JStr (Serial st)),
                       (''ts'', JStr (status_TS st))]
      in g\<lparr>zc_calls := zc_calls g @ [(WithTimeout (ctx g) RequestTimeout, SerialNumber 0)],
           isOnline := Reachable st,
           onlineStatus := (if Reachable st \<noteq> isOnline g \<and> onlineStatus g = []
                            then [Reachable st] else onlineStatus g),
           nc_calls := nc_calls g @ [(subject, data, Publish e subject data)]\<rparr>)"
proof -
  obtain st g1 where cr: "checkReachability e g = (st, g1)"
    by (cases "checkReachability e g")
  have g1: "g1 = g\<lparr>zc_calls := zc_calls g @ [(WithTimeout (ctx g) RequestTimeout, SerialNumber 0)]\<rparr>"
    using checkReachability_snd [of e g] cr by simp
  show ?thesis
    by (cases "Publish e (''z21.'' @ name g @ ''.status'')
                 (JObj [(''reachable'', JBool (Reachable st)),
                       (''serial:omitempty'', JStr (Serial st)),
                       (''ts'', JStr (status_TS st))])")
       (auto simp: doHeartbeatCheck_def cr g1 marshal_StatusMsg_eq nc_Publish_def try_send_def Let_def)
qed

lemma heartbeat_ticks_published:
  "length (nc_calls (heartbeat_ticks es g)) = length (nc_calls g) + length es"
  by (induction es arbitrary: g) (simp_all add: doHeartbeatCheck_eq Let_def)

subsection \<open>The reachability monitor\<close>

text \<open>
  C5. The probe reports the device reachable exactly when the round trip succeeded
  and the response is a serial number message, and then the serial is that number in
  decimal; in every other case (an error, a nil response, a response of another type)
  it reports unreachable with the empty serial.
\<close>

theorem checkReachability_classifies:
  assumes "r = SendRcv e (WithTimeout (ctx g) RequestTimeout) (SerialNumber 0)"
    and "st = fst (checkReachability e g)"
  shows "(Reachable st \<longleftrightarrow> (\<exists>sn. r = Inr (Some (SerialNumber sn))))
       \<and> (\<forall>sn. r = Inr (Some (SerialNumber sn)) \<longrightarrow> Serial st = dec_int sn)
       \<and> (\<not> Reachable st \<longrightarrow> Serial st = [])"
  using assms
  by (auto simp: checkReachability_def Let_def split: sum.splits option.splits Serializable.splits)

theorem checkReachability_classifies_witness:
  "Reachable (fst (checkReachability up_env main_gw))
   \<and> Serial (fst (checkReachability up_env main_gw)) = ''12345''
   \<and> \<not> Reachable (fst (checkReachability down_env main_gw))
   \<and> Serial (fst (checkReachability down_env main_gw)) = []"
  using checkReachability_classifies [OF refl refl, of up_env main_gw]
    checkReachability_classifies [OF refl refl, of down_env main_gw]
  by (simp add: up_env_def typed_payload_def down_env_def main_gw_def dec_int_def dec_nat.simps digit_char_def)

text \<open>
  C4. Every check publishes exactly one status message, whether or not the state
  changed: one call of \<open>Publish\<close> on the status subject, with the encoded status. The
  stored state becomes the probe's flag. The flag is sent to the transition channel
  exactly when it differs from the stored state, without blocking: it is buffered when
  the channel is empty and dropped when an earlier notification is still there. Over
  the whole loop, the number of status messages is the number of checks: the first one
  and one per tick.
\<close>

theorem heartbeat_publishes_and_notifies:
  "(let st = fst (checkReachability e g);
        g' = doHeartbeatCheck e g;
        subject = ''z21.'' @ name g @ ''.status''
    in (\<exists>data. marshal_StatusMsg st = Inr data
           \<and> nc_calls g' = nc_calls g @ [(subject, data, Publish e subject data)])
       \<and> isOnline g' = Reachable st
       \<and> onlineStatus g' =
           (if Reachable st \<noteq> isOnline g
            then (if onlineStatus g = [] then [Reachable st] else onlineStatus g)
            else onlineStatus g))
   \<and> length (nc_calls (heartbeatLoop e0 ticks g)) = length (nc_calls g) + 1 + length ticks"
  by (simp add: doHeartbeatCheck_eq marshal_StatusMsg_eq heartbeat_ticks_published
      heartbeatLoop_def Let_def)

theorem heartbeat_publishes_and_notifies_witness:
  "onlineStatus (doHeartbeatCheck up_env main_gw) = [True]
   \<and> onlineStatus (doHeartbeatCheck down_env (doHeartbeatCheck up_env main_gw)) = [True]
   \<and> isOnline (doHeartbeatCheck down_env (doHeartbeatCheck up_env main_gw)) = False
   \<and> length (nc_calls (heartbeatLoop up_env [down_env, down_env] main_gw)) = 3"
proof -
  have u: "Reachable (fst (checkReachability up_env g))" for g
    by (simp add: checkReachability_def up_env_def typed_payload_def Let_def)
  have d: "\<not> Reachable (fst (checkReachability down_env g))" for g
    by (simp add: checkReachability_def down_env_def up_env_def typed_payload_def Let_def)
  have m: "onlineStatus main_gw = [] \<and> \<not> isOnline main_gw \<and> nc_calls main_gw = []"
    by (simp add: main_gw_def)
  show ?thesis
    using heartbeat_publishes_and_notifies [of up_env main_gw up_env "[down_env, down_env]"]
      heartbeat_publishes_and_notifies [of down_env "doHeartbeatCheck up_env main_gw" up_env "[]"]
    by (simp add: Let_def u d m)
qed

text \<open>
  C8. The status message is claimed to be the JSON object with the keys \<open>reachable\<close>,
  \<open>serial\<close> and \<open>ts\<close>. At a probe answered with serial 12345 the gateway publishes,
  on \<open>z21.main.status\<close>, an object whose second key is \<open>serial:omitempty\<close>: the tag
  of the field \<open>Serial\<close> has a colon where the comma of an option was meant, so the
  whole tag is the key and the field is never left out.
\<close>

theorem status_json_keys:
  "nc_calls (doHeartbeatCheck up_env main_gw) =
     [(''z21.main.status'',
       JObj [(''reachable'', JBool True), (''serial:omitempty'', JStr ''12345''),
             (''ts'', JStr ''2025-10-26T18:28:54Z'')],
       None)]
   \<and> map (json_keys \<circ> fst \<circ> snd) (nc_calls (doHeartbeatCheck up_env main_gw)) =
       [[''reachable'', ''serial:omitempty'', ''ts'']]"
proof -
  have c: "fst (checkReachability up_env main_gw) =
             \<lparr>Reachable = True, Serial = ''12345'', status_TS = ''2025-10-26T18:28:54Z''\<rparr>"
    by (simp add: checkReachability_def up_env_def typed_payload_def main_gw_def dec_int_def dec_nat.simps
        digit_char_def Let_def)
  show ?thesis
    by (simp add: doHeartbeatCheck_eq c Let_def json_keys_def) (simp add: main_gw_def up_env_def typed_payload_def)
qed

subsection \<open>The contexts of the device round trips\<close>

lemma device_call_contexts:
  "map fst (zc_calls (snd (checkReachability e g))) =
     map fst (zc_calls g) @ [WithTimeout (ctx g) RequestTimeout]
   \<and> map fst (zc_calls (snd (handleRequest e g req))) =
     map fst (zc_calls g) @ [WithTimeout (ctx g) RequestTimeout]
   \<and> map fst (zc_calls (subscribeBroadcast e g)) = map fst (zc_calls g) @ [Background]
   \<and> RequestTimeout = 500 * Millisecond
   \<and> (timeout_of (ctx g) = None \<longrightarrow>
        timeout_of (WithTimeout (ctx g) RequestTimeout) = Some RequestTimeout)
   \<and> timeout_of Background = None"
  by (simp add: checkReachability_snd handleRequest_def subscribeBroadcast_def RequestTimeout_def
      Let_def split: sum.splits)

text \<open>
  C6. Every device round trip is claimed to run under the timeout \<open>RequestTimeout\<close>
  of 500 ms. The probe and the forwarded command do: their context is the gateway's
  with that timeout. The arming request of \<open>subscribeBroadcast\<close> is sent under the
  background context, which has no timeout and is not cancelled with the gateway.
\<close>

theorem arming_call_without_timeout:
  "map (timeout_of \<circ> fst) (zc_calls (subscribeBroadcast down_env main_gw)) = [None]
   \<and> map (timeout_of \<circ> fst) (zc_calls (snd (checkReachability down_env main_gw))) =
       [Some RequestTimeout]
   \<and> map (timeout_of \<circ> fst) (zc_calls (snd (handleRequest down_env main_gw (CanDetector 7)))) =
       [Some RequestTimeout]
   \<and> RequestTimeout = 500 * Millisecond"
  by (simp add: subscribeBroadcast_def checkReachability_snd handleRequest_def main_gw_def
      RequestTimeout_def Let_def)

subsection \<open>Arming the subscription\<close>

text \<open>
  When the monitor takes a notification from the channel: for an online notification
  it sends exactly one request to the device, the broadcast flags with the
  system-updates mask or-ed with the detector-updates mask, and whatever the device
  answers, an error included, nothing else changes (no second request, nothing
  published); for an offline notification it sends nothing.
\<close>

theorem arming_on_online_only:
  assumes "onlineStatus g = isOn # rest" and "\<not> (cancelled g \<and> take_done)"
  shows "monitorOnlineStatus_turn e take_done g =
           Some (Inr (if isOn
                      then g\<lparr>onlineStatus := rest,
                             zc_calls := zc_calls g @
                               [(Background,
                                 BroadcastFlags (Mask32 e SYSTEM_UPDATES OR Mask32 e CAN_DETECTOR_UPDATES))]\<rparr>
                      else g\<lparr>onlineStatus := rest\<rparr>))"
  using assms
  by (auto simp: monitorOnlineStatus_turn_def monitor_received_def subscribeBroadcast_def Let_def
      split: sum.splits)

theorem arming_on_online_only_witness:
  "monitorOnlineStatus_turn down_env False (main_gw\<lparr>onlineStatus := [True]\<rparr>) =
     Some (Inr (main_gw\<lparr>zc_calls := [(Background, BroadcastFlags 0x80100)]\<rparr>))
   \<and> monitorOnlineStatus_turn down_env False (main_gw\<lparr>onlineStatus := [False]\<rparr>) =
     Some (Inr main_gw)"
proof -
  have a: "onlineStatus (main_gw\<lparr>onlineStatus := [True]\<rparr>) = True # []"
    and b: "onlineStatus (main_gw\<lparr>onlineStatus := [False]\<rparr>) = False # []"
    and c: "\<not> (cancelled (main_gw\<lparr>onlineStatus := [True]\<rparr>) \<and> False)"
    and d: "\<not> (cancelled (main_gw\<lparr>onlineStatus := [False]\<rparr>) \<and> False)"
    by simp_all
  show ?thesis
    using arming_on_online_only [OF a c, of down_env] arming_on_online_only [OF b d, of down_env]
    by (simp add: main_gw_def down_env_def up_env_def typed_payload_def)
qed

text \<open>
  C9. An error of the arming request is claimed to be logged, and no more. It is not
  logged: \<open>subscribeBroadcast\<close> writes no line whatever the device answers, since the
  error event is built without the final \<open>Msg\<close> that every other log call of the
  gateway has. At an online notification with a device that does not answer in time,
  the one request with the or-ed masks is sent, it fails, and the only line written
  is the announcement at level info.
\<close>

theorem arming_error_not_logged:
  "subscribeBroadcast_log e g = []
   \<and> zc_calls (monitor_received down_env True main_gw) = [(Background, BroadcastFlags 0x80100)]
   \<and> SendRcv down_env Background (BroadcastFlags 0x80100) = Inl ''context deadline exceeded''
   \<and> monitor_received_log down_env True main_gw = [(InfoLevel, [], online_message)]"
  by (simp add: subscribeBroadcast_log_def monitor_received_log_def monitor_received_def
      subscribeBroadcast_def Event_Msg_def newEvent_def down_env_def up_env_def typed_payload_def main_gw_def Let_def
      split: sum.splits)

subsection \<open>The command dispatcher\<close>

lemma doCmdRequest_sem:
  "doCmdRequest e (g\<lparr>sem := n\<rparr>) msg =
     (fst (doCmdRequest e g msg), (snd (doCmdRequest e g msg))\<lparr>sem := n\<rparr>)"
  by (simp add: doCmdRequest_def discover_subject_def handleRequest_def Let_def split: sum.splits)

lemma doCmdRequest_snd:
  "snd (doCmdRequest e g msg) =
     (if Subject msg = discover_subject g
      then (case Unmarshal_CanDetector e (Data msg) of
              Inl err \<Rightarrow> g
            | Inr req \<Rightarrow>
                g\<lparr>zc_calls := zc_calls g @ [(WithTimeout (ctx g) RequestTimeout, CanDetector req)]\<rparr>)
      else g)"
  by (simp add: doCmdRequest_def handleRequest_def Let_def split: sum.splits)

lemma publishReply_eq:
  "publishReply e msg reply g =
     g\<lparr>nc_calls := nc_calls g @
          (case marshal_CmdReply e reply of
             Inl err \<Rightarrow> []
           | Inr data \<Rightarrow> [(reply_subject g msg, data, Publish e (reply_subject g msg) data)])\<rparr>"
  by (simp add: publishReply_def nc_Publish_def Let_def split: sum.splits option.splits)

lemma handleCmdMessage_acquired:
  assumes "sem g < MaxConcurrentCommands" and "\<not> (cancelled g \<and> take_done)"
  shows "handleCmdMessage e take_done g msg =
     Some ((snd (doCmdRequest e g msg))
        \<lparr>nc_calls := nc_calls g @
          (case marshal_CmdReply e (fst (doCmdRequest e g msg)) of
             Inl err \<Rightarrow> []
           | Inr data \<Rightarrow> [(reply_subject g msg, data, Publish e (reply_subject g msg) data)])\<rparr>)"
  using assms
  by (simp add: handleCmdMessage_def doCmdRequest_sem publishReply_eq reply_subject_def
      doCmdRequest_snd Let_def split: prod.splits sum.splits)

text \<open>
  C2 (amended). When the handler of a command message acquires a slot, it returns with
  the slot given back, and it has made one call of \<open>Publish\<close> with the encoded reply if
  the reply could be encoded, on the message's reply address when there is one and on
  \<open>z21.<name>.reply\<close> otherwise; if the reply could not be encoded it has published
  nothing. As claimed (one reply for every such message) the property fails where the
  encoder rejects the device's answer: see the counterexample.
\<close>

theorem handleCmdMessage_publishes:
  assumes "sem g < MaxConcurrentCommands" and "\<not> (cancelled g \<and> take_done)"
  shows "\<exists>g'. handleCmdMessage e take_done g msg = Some g' \<and> sem g' = sem g
      \<and> nc_calls g' = nc_calls g @
          (let subject = (if Reply msg \<noteq> [] then Reply msg else ''z21.'' @ name g @ ''.reply'')
           in case marshal_CmdReply e (fst (doCmdRequest e g msg)) of
                Inl err \<Rightarrow> []
              | Inr data \<Rightarrow> [(subject, data, Publish e subject data)])"
  using assms
  by (simp add: handleCmdMessage_acquired reply_subject_def doCmdRequest_snd Let_def
      split: sum.splits)

theorem handleCmdMessage_publishes_witness:
  "map_option nc_calls (handleCmdMessage up_env False main_gw discover_msg) =
     Some [(''_INBOX.1'',
            JObj [(''type'', JStr []), (''ok'', JBool True), (''reply'', JNum 7),
                  (''ts'', JStr ''2025-10-26T19:28:54+01:00'')],
            None)]"
proof -
  have a: "sem main_gw < MaxConcurrentCommands"
    by (simp add: main_gw_def MaxConcurrentCommands_def)
  have b: "\<not> (cancelled main_gw \<and> False)"
    by simp
  have d: "fst (doCmdRequest up_env main_gw discover_msg) =
             \<lparr>reply_Type = [], Ok = True, reply_Data = Some (OtherMsg 7), Error = [],
              reply_TS = ''2025-10-26T19:28:54+01:00''\<rparr>"
    by (simp add: doCmdRequest_def discover_subject_def handleRequest_def handleRequest_reply_def
        up_env_def typed_payload_def main_gw_def discover_msg_def Let_def)
  have m: "marshal_CmdReply up_env (fst (doCmdRequest up_env main_gw discover_msg)) =
             Inr (JObj [(''type'', JStr []), (''ok'', JBool True), (''reply'', JNum 7),
                  (''ts'', JStr ''2025-10-26T19:28:54+01:00'')])"
    unfolding d by (simp add: marshal_CmdReply_def structField_simps up_env_def typed_payload_def)
  show ?thesis
    using handleCmdMessage_publishes [OF a b, of up_env discover_msg]
    unfolding m
    by (auto simp: discover_msg_def main_gw_def up_env_def typed_payload_def)
qed

theorem handleCmdMessage_publishes_counterexample:
  "sem main_gw < MaxConcurrentCommands \<and> \<not> cancelled main_gw
   \<and> map_option nc_calls (handleCmdMessage unencodable_env False main_gw discover_msg) = Some []"
proof -
  have a: "sem main_gw < MaxConcurrentCommands"
    by (simp add: main_gw_def MaxConcurrentCommands_def)
  have d: "fst (doCmdRequest unencodable_env main_gw discover_msg) =
             \<lparr>reply_Type = [], Ok = True, reply_Data = Some (OtherMsg 7), Error = [],
              reply_TS = ''2025-10-26T19:28:54+01:00''\<rparr>"
    by (simp add: doCmdRequest_def discover_subject_def handleRequest_def handleRequest_reply_def
        unencodable_env_def up_env_def typed_payload_def main_gw_def discover_msg_def Let_def)
  have m: "marshal_CmdReply unencodable_env (fst (doCmdRequest unencodable_env main_gw discover_msg)) =
             Inl ''json: unsupported value: NaN''"
    unfolding d by (simp add: marshal_CmdReply_def unencodable_env_def)
  have "handleCmdMessage unencodable_env False main_gw discover_msg =
          Some ((snd (doCmdRequest unencodable_env main_gw discover_msg))\<lparr>nc_calls := nc_calls main_gw @ []\<rparr>)"
    using handleCmdMessage_acquired [OF a, of False unencodable_env discover_msg]
    unfolding m by simp
  then show ?thesis
    using a by (simp add: main_gw_def)
qed


text \<open>
  C3. A message on the discover subject whose payload does not decode gets the reply
  with \<open>ok = false\<close> and the error \<open>invalid message: \<close> followed by the decoder's
  error, and the handler makes no call on the device for it.
\<close>

theorem malformed_payload_short_circuits:
  assumes "Subject msg = ''z21.'' @ name g @ ''.cmd.can.discover''"
    and "Unmarshal_CanDetector e (Data msg) = Inl err"
  shows "doCmdRequest e g msg =
           (\<lparr>reply_Type = [], Ok = False, reply_Data = None,
             Error = ''invalid message: '' @ err, reply_TS = now_local e\<rparr>, g)
       \<and> (case handleCmdMessage e take_done g msg of
             None \<Rightarrow> True
           | Some g' \<Rightarrow> zc_calls g' = zc_calls g)"
proof -
  have d: "doCmdRequest e g msg = (handleError e err, g)"
    using assms by (simp add: doCmdRequest_def discover_subject_def)
  have "zc_calls g' = zc_calls g" if "handleCmdMessage e take_done g msg = Some g'" for g'
  proof (cases "sem g < MaxConcurrentCommands \<and> \<not> (cancelled g \<and> take_done)")
    case True
    then show ?thesis
      using that handleCmdMessage_acquired [of g take_done e msg] d by auto
  next
    case False
    then show ?thesis
      using that by (auto simp: handleCmdMessage_def split: if_splits)
  qed
  then show ?thesis
    using d by (simp add: handleError_def split: option.splits)
qed

theorem malformed_payload_short_circuits_witness:
  "doCmdRequest up_env main_gw malformed_msg =
     (\<lparr>reply_Type = [], Ok = False, reply_Data = None,
       Error = ''invalid message: unexpected end of JSON input'',
       reply_TS = ''2025-10-26T19:28:54+01:00''\<rparr>, main_gw)
   \<and> map_option zc_calls (handleCmdMessage up_env False main_gw malformed_msg) = Some []"
proof -
  have s: "Subject malformed_msg = ''z21.'' @ name main_gw @ ''.cmd.can.discover''"
    by (simp add: malformed_msg_def main_gw_def)
  have u: "Unmarshal_CanDetector up_env (Data malformed_msg) = Inl ''unexpected end of JSON input''"
    by (simp add: malformed_msg_def up_env_def typed_payload_def)
  have a: "sem main_gw < MaxConcurrentCommands"
    by (simp add: main_gw_def MaxConcurrentCommands_def)
  obtain g' where g': "handleCmdMessage up_env False main_gw malformed_msg = Some g'"
    using handleCmdMessage_acquired [OF a, of False up_env malformed_msg] by simp
  show ?thesis
    using malformed_payload_short_circuits [OF s u, of False] g'
    by (simp add: up_env_def typed_payload_def main_gw_def)
qed

text \<open>
  C10. A message on any other subject than the discover subject gets the zero reply:
  \<open>ok = false\<close>, no error, no type and the empty timestamp, and the handler that
  holds a slot publishes it as such. The other two reply paths, \<open>handleError\<close> and
  \<open>handleRequest\<close>, set the timestamp from the clock.
\<close>

theorem unknown_subject_zero_reply:
  assumes "Subject msg \<noteq> ''z21.'' @ name g @ ''.cmd.can.discover''"
  shows "doCmdRequest e g msg =
           (\<lparr>reply_Type = [], Ok = False, reply_Data = None, Error = [], reply_TS = []\<rparr>, g)
       \<and> (sem g < MaxConcurrentCommands \<and> \<not> cancelled g \<longrightarrow>
            handleCmdMessage e take_done g msg =
              Some (g\<lparr>nc_calls := nc_calls g @
                [(reply_subject g msg,
                  JObj [(''type'', JStr []), (''ok'', JBool False), (''ts'', JStr [])],
                  Publish e (reply_subject g msg)
                    (JObj [(''type'', JStr []), (''ok'', JBool False), (''ts'', JStr [])]))]\<rparr>))
       \<and> reply_TS (handleError e err) = now_local e
       \<and> reply_TS (fst (handleRequest e g req)) = now_local e"
proof -
  have d: "doCmdRequest e g msg = (CmdReply_zero, g)"
    using assms by (simp add: doCmdRequest_def discover_subject_def)
  have m: "marshal_CmdReply e CmdReply_zero =
             Inr (JObj [(''type'', JStr []), (''ok'', JBool False), (''ts'', JStr [])])"
    by (simp add: marshal_CmdReply_nil CmdReply_zero_def)
  have h: "handleCmdMessage e take_done g msg =
             Some (g\<lparr>nc_calls := nc_calls g @
                [(reply_subject g msg,
                  JObj [(''type'', JStr []), (''ok'', JBool False), (''ts'', JStr [])],
                  Publish e (reply_subject g msg)
                    (JObj [(''type'', JStr []), (''ok'', JBool False), (''ts'', JStr [])]))]\<rparr>)"
    if "sem g < MaxConcurrentCommands" and "\<not> cancelled g"
    using handleCmdMessage_acquired [of g take_done e msg] that by (simp add: d m)
  have t: "reply_TS (handleError e err) = now_local e
         \<and> reply_TS (fst (handleRequest e g req)) = now_local e"
    by (simp add: handleError_def handleRequest_def handleRequest_reply_def Let_def
        split: sum.splits)
  show ?thesis
    using h t by (simp add: d CmdReply_zero_def)
qed

theorem unknown_subject_zero_reply_witness:
  "doCmdRequest up_env main_gw unknown_msg =
     (\<lparr>reply_Type = [], Ok = False, reply_Data = None, Error = [], reply_TS = []\<rparr>, main_gw)
   \<and> map_option nc_calls (handleCmdMessage up_env False main_gw unknown_msg) =
       Some [(''z21.main.reply'',
              JObj [(''type'', JStr []), (''ok'', JBool False), (''ts'', JStr [])], None)]"
proof -
  have s: "Subject unknown_msg \<noteq> ''z21.'' @ name main_gw @ ''.cmd.can.discover''"
    by (simp add: unknown_msg_def main_gw_def)
  have a: "sem main_gw < MaxConcurrentCommands \<and> \<not> cancelled main_gw"
    by (simp add: main_gw_def MaxConcurrentCommands_def)
  show ?thesis
    using unknown_subject_zero_reply [OF s, of up_env False] a
    by (simp add: reply_subject_def unknown_msg_def main_gw_def up_env_def typed_payload_def)
qed

text \<open>
  The reply to a request that decoded: the timestamp of the clock, and either
  \<open>ok = false\<close> with the device's error or \<open>ok = true\<close> with the device's response.
\<close>

lemma forwarded_request_reply_fields:
  assumes "Subject msg = ''z21.'' @ name g @ ''.cmd.can.discover''"
    and "Unmarshal_CanDetector e (Data msg) = Inr req"
  shows "(let reply = fst (doCmdRequest e g msg)
          in reply_Type reply = [] \<and> reply_TS reply = now_local e
             \<and> (case SendRcv e (WithTimeout (ctx g) RequestTimeout) (CanDetector req) of
                  Inl err \<Rightarrow> \<not> Ok reply \<and> Error reply = err \<and> reply_Data reply = None
                | Inr resp \<Rightarrow> Ok reply \<and> reply_Data reply = resp \<and> Error reply = []))"
  using assms
  by (simp add: doCmdRequest_def discover_subject_def handleRequest_def handleRequest_reply_def
      Let_def split: sum.splits)

text \<open>
  C7. The reply is claimed to carry the type of the request. No reply path sets the
  type: for every message the reply's type is empty. A discover message whose payload
  is the object with the one member \<open>type\<close>, of value \<open>discover\<close>, decodes, is
  forwarded and answered, and its reply is published with \<open>ok = true\<close>, the device's
  response, the timestamp, and the empty type.
\<close>

theorem reply_type_always_empty:
  "reply_Type (fst (doCmdRequest e g msg)) = []
   \<and> Data typed_msg = typed_payload
   \<and> Unmarshal_CanDetector up_env (Data typed_msg) = Inr 7
   \<and> fst (doCmdRequest up_env main_gw typed_msg) =
       \<lparr>reply_Type = [], Ok = True, reply_Data = Some (OtherMsg 7), Error = [],
        reply_TS = ''2025-10-26T19:28:54+01:00''\<rparr>
   \<and> reply_Type (fst (doCmdRequest up_env main_gw typed_msg)) \<noteq> ''discover''
   \<and> map_option nc_calls (handleCmdMessage up_env False main_gw typed_msg) =
       Some [(''_INBOX.1'',
              JObj [(''type'', JStr []), (''ok'', JBool True), (''reply'', JNum 7),
                    (''ts'', JStr ''2025-10-26T19:28:54+01:00'')],
              None)]"
proof -
  have t: "reply_Type (fst (doCmdRequest e g msg)) = []" for e :: "'a env" and g msg
    by (simp add: doCmdRequest_def handleError_def handleRequest_def handleRequest_reply_def
        CmdReply_zero_def Let_def split: sum.splits)
  have d: "fst (doCmdRequest up_env main_gw typed_msg) =
             \<lparr>reply_Type = [], Ok = True, reply_Data = Some (OtherMsg 7), Error = [],
              reply_TS = ''2025-10-26T19:28:54+01:00''\<rparr>"
    by (simp add: doCmdRequest_def discover_subject_def handleRequest_def handleRequest_reply_def
        up_env_def typed_payload_def main_gw_def typed_msg_def Let_def)
  have m: "marshal_CmdReply up_env (fst (doCmdRequest up_env main_gw typed_msg)) =
             Inr (JObj [(''type'', JStr []), (''ok'', JBool True), (''reply'', JNum 7),
                  (''ts'', JStr ''2025-10-26T19:28:54+01:00'')])"
    unfolding d by (simp add: marshal_CmdReply_def structField_simps up_env_def typed_payload_def)
  have a: "sem main_gw < MaxConcurrentCommands"
    by (simp add: main_gw_def MaxConcurrentCommands_def)
  have h: "map_option nc_calls (handleCmdMessage up_env False main_gw typed_msg) =
       Some [(''_INBOX.1'',
              JObj [(''type'', JStr []), (''ok'', JBool True), (''reply'', JNum 7),
                    (''ts'', JStr ''2025-10-26T19:28:54+01:00'')],
              None)]"
    using handleCmdMessage_acquired [OF a, of False up_env typed_msg]
    unfolding m by (simp add: reply_subject_def typed_msg_def main_gw_def up_env_def typed_payload_def)
  show ?thesis
    using t d h by (simp add: typed_msg_def up_env_def typed_payload_def)
qed

subsection \<open>The semaphore\<close>

lemma count_update:
  "i < length xs \<Longrightarrow>
   length (filter P (xs[i := y])) + (if P (xs ! i) then 1 else 0) =
   length (filter P xs) + (if P y then 1 else 0)"
proof (induction xs arbitrary: i)
  case Nil
  then show ?case by simp
next
  case (Cons x xs)
  then show ?case by (cases i) auto
qed

lemma count_pos: "i < length xs \<Longrightarrow> P (xs ! i) \<Longrightarrow> 0 < length (filter P xs)"
  by (metis filter_empty_conv length_greater_0_conv nth_mem)

lemma in_flight_holds: "in_flight u \<Longrightarrow> holds_slot u"
  by (cases u) simp_all

lemma inflight_le_holding: "inflight s \<le> holding s"
proof -
  have "length (filter in_flight xs) \<le> length (filter holds_slot xs)" for xs :: "'a unit_state list"
    by (induction xs) (auto dest: in_flight_holds)
  then show ?thesis by (simp add: inflight_def holding_def)
qed

lemma publishReply_sem: "sem (publishReply e m reply g) = sem g"
  by (simp add: publishReply_def nc_Publish_def Let_def split: sum.splits option.splits)

lemma unit_step_sem:
  assumes "unit_step e take_done g u = (g', u')"
    and "holds_slot u \<longrightarrow> 0 < sem g"
    and "sem g \<le> MaxConcurrentCommands"
  shows "sem g' + (if holds_slot u then 1 else 0) = sem g + (if holds_slot u' then 1 else 0)
       \<and> sem g' \<le> MaxConcurrentCommands"
  using assms
  by (cases u) (auto simp: Let_def publishReply_sem split: if_splits sum.splits)

lemma monitor_sem:
  "monitorOnlineStatus_turn e take_done g = Some (Inr g') \<Longrightarrow> sem g' = sem g"
  by (auto simp: monitorOnlineStatus_turn_def monitor_received_def subscribeBroadcast_def Let_def
      split: list.splits if_splits sum.splits)

lemma system_step_slots_ok:
  assumes "slots_ok s"
  shows "slots_ok (system_step s a)"
proof (cases a)
  case (Arrive m)
  then show ?thesis using assms by (simp add: slots_ok_def holding_def)
next
  case Cancel
  then show ?thesis using assms by (simp add: slots_ok_def holding_def)
next
  case (Step i take_done e)
  show ?thesis
  proof (cases "i < length (units s)")
    case False
    then show ?thesis using assms Step by simp
  next
    case True
    obtain g' u' where st: "unit_step e take_done (gateway s) (units s ! i) = (g', u')"
      by (cases "unit_step e take_done (gateway s) (units s ! i)")
    have pos: "holds_slot (units s ! i) \<longrightarrow> 0 < sem (gateway s)"
      using assms True count_pos [of i "units s" holds_slot] by (simp add: slots_ok_def holding_def)
    have le: "sem (gateway s) \<le> MaxConcurrentCommands"
      using assms by (simp add: slots_ok_def)
    note u = unit_step_sem [OF st pos le]
    note c = count_update [OF True, of holds_slot u']
    have "sem g' = length (filter holds_slot ((units s)[i := u']))"
      using u c assms by (simp add: slots_ok_def holding_def split: if_splits)
    then show ?thesis
      using u Step True st by (simp add: slots_ok_def holding_def)
  qed
next
  case (Heartbeat e)
  then show ?thesis using assms by (simp add: slots_ok_def holding_def doHeartbeatCheck_eq Let_def)
next
  case (Monitor take_done e)
  then show ?thesis
    using assms
    by (auto simp: slots_ok_def holding_def dest: monitor_sem split: option.splits sum.splits)
qed

lemma three_steps_release:
  assumes "holds_slot u" and "0 < sem g"
  shows "(let (g1, u1) = unit_step e1 t1 g u;
              (g2, u2) = unit_step e2 t2 g1 u1;
              (g3, u3) = unit_step e3 t3 g2 u2
          in u3 = Released \<and> sem g3 + 1 = sem g)"
  using assms
  by (cases u)
     (auto simp: Let_def publishReply_def nc_Publish_def
       split: sum.splits option.splits prod.splits)

lemma system_step_Step:
  "i < length (units s) \<Longrightarrow>
   system_step s (Step i t e) =
     \<lparr>gateway = fst (unit_step e t (gateway s) (units s ! i)),
      units = (units s)[i := snd (unit_step e t (gateway s) (units s ! i))]\<rparr>"
  by (simp add: case_prod_beta)

lemma holder_releases:
  assumes "slots_ok s" and "i < length (units s)" and "holds_slot (units s ! i)"
  shows "(let s' = run [Step i t1 e1, Step i t2 e2, Step i t3 e3] s
          in units s' ! i = Released \<and> sem (gateway s') + 1 = sem (gateway s))"
proof -
  have pos: "0 < sem (gateway s)"
    using assms count_pos [of i "units s" holds_slot] by (simp add: slots_ok_def holding_def)
  show ?thesis
    using three_steps_release [OF assms(3) pos, of e1 t1 e2 t2 e3 t3] assms(2)
    by (simp add: run_def system_step_Step case_prod_beta Let_def)
qed

lemma run_append: "run (xs @ ys) s = run ys (run xs s)"
  by (simp add: run_def)

lemma run_slots_ok: "slots_ok s \<Longrightarrow> slots_ok (run acts s)"
  unfolding run_def
  by (induction acts arbitrary: s) (simp_all add: system_step_slots_ok)

text \<open>
  The four steps of one unit, taken in a row, are \<open>handleCmdMessage\<close>.
\<close>

lemma unit_steps_handleCmdMessage:
  "unit_steps 4 e take_done (g, AtSelect m) =
     (case handleCmdMessage e take_done g m of
        None \<Rightarrow> (g, AtSelect m)
      | Some g' \<Rightarrow>
          (g', if sem g < MaxConcurrentCommands \<and> \<not> (cancelled g \<and> take_done)
               then Released else Abandoned))"
  by (auto simp: numeral_Bit0 handleCmdMessage_def doCmdRequest_def
      discover_subject_def handleRequest_def Let_def split: sum.splits prod.splits)

lemma burst_run:
  "units (run burst (start main_gw)) =
     [InFlight discover_msg (WithTimeout (WithCancel Background) RequestTimeout) (CanDetector 7),
      InFlight discover_msg (WithTimeout (WithCancel Background) RequestTimeout) (CanDetector 7),
      InFlight discover_msg (WithTimeout (WithCancel Background) RequestTimeout) (CanDetector 7),
      InFlight discover_msg (WithTimeout (WithCancel Background) RequestTimeout) (CanDetector 7),
      AtSelect discover_msg]"
  by (simp add: run_def burst_def start_def main_gw_def MaxConcurrentCommands_def
      discover_subject_def discover_msg_def up_env_def typed_payload_def Let_def)

lemma burst_refill_run:
  "units (run (burst @ burst_next @ burst_refill) (start main_gw)) =
     [Released,
      InFlight discover_msg (WithTimeout (WithCancel Background) RequestTimeout) (CanDetector 7),
      InFlight discover_msg (WithTimeout (WithCancel Background) RequestTimeout) (CanDetector 7),
      InFlight discover_msg (WithTimeout (WithCancel Background) RequestTimeout) (CanDetector 7),
      InFlight discover_msg (WithTimeout (WithCancel Background) RequestTimeout) (CanDetector 7)]"
  by (simp add: run_def burst_def burst_next_def burst_refill_def start_def main_gw_def
      MaxConcurrentCommands_def discover_subject_def discover_msg_def up_env_def typed_payload_def Let_def
      publishReply_def nc_Publish_def marshal_CmdReply_def handleRequest_reply_def)

text \<open>
  C1. From the gateway that \<open>NewGateway\<close> builds, after any sequence of arrivals,
  cancellations, unit steps, heartbeat checks and monitor turns: the units inside
  \<open>SendRcv\<close> are among the units that hold a slot, those are as many as the tokens in
  the semaphore, and these are at most \<open>MaxConcurrentCommands\<close>. Only a unit that
  holds a slot makes a call on the device. A unit inside \<open>SendRcv\<close> goes on, when the
  call returns, to the reply built from what it returned. A unit that has its reply
  returns and gives its slot back whatever encoding and publishing the reply did. So
  every unit that holds a slot, inside \<open>SendRcv\<close> or not, has returned after its next
  three steps, whatever environments they meet, and the semaphore then holds one
  token less.
\<close>

theorem dispatcher_slots_bounded:
  assumes "NewGateway None parent nm = Inr g"
  shows "inflight (run acts (start g)) \<le> holding (run acts (start g))
       \<and> holding (run acts (start g)) = sem (gateway (run acts (start g)))
       \<and> sem (gateway (run acts (start g))) \<le> MaxConcurrentCommands
       \<and> (holds_slot u \<or> zc_calls (fst (unit_step e take_done g' u)) = zc_calls g')
       \<and> snd (unit_step e take_done g' (Replying m reply)) = Released
       \<and> sem (fst (unit_step e take_done g' (Replying m reply))) = sem g' - 1
       \<and> unit_step e take_done g' (InFlight m c req) =
           (g', Replying m (handleRequest_reply e (SendRcv e c req)))
       \<and> (i < length (units (run acts (start g)))
            \<and> holds_slot (units (run acts (start g)) ! i) \<longrightarrow>
          units (run (acts @ [Step i t1 e1, Step i t2 e2, Step i t3 e3]) (start g)) ! i
            = Released
          \<and> sem (gateway (run (acts @ [Step i t1 e1, Step i t2 e2, Step i t3 e3]) (start g)))
              + 1
            = sem (gateway (run acts (start g))))"
proof -
  have "slots_ok (start g)"
    using assms by (auto simp: NewGateway_def slots_ok_def start_def holding_def)
  then have ok: "slots_ok (run acts (start g))"
    by (rule run_slots_ok)
  have dev: "holds_slot u \<or> zc_calls (fst (unit_step e take_done g' u)) = zc_calls g'"
    by (cases u) simp_all
  have rel: "units (run (acts @ [Step i t1 e1, Step i t2 e2, Step i t3 e3]) (start g)) ! i
            = Released
          \<and> sem (gateway (run (acts @ [Step i t1 e1, Step i t2 e2, Step i t3 e3]) (start g)))
              + 1
            = sem (gateway (run acts (start g)))"
    if "i < length (units (run acts (start g)))"
      and "holds_slot (units (run acts (start g)) ! i)"
    using holder_releases [OF ok that, of t1 e1 t2 e2 t3 e3]
    by (simp add: run_append Let_def)
  have bound: "inflight (run acts (start g)) \<le> holding (run acts (start g))
       \<and> holding (run acts (start g)) = sem (gateway (run acts (start g)))
       \<and> sem (gateway (run acts (start g))) \<le> MaxConcurrentCommands"
    using ok by (simp add: slots_ok_def inflight_le_holding)
  have last: "snd (unit_step e take_done g' (Replying m reply)) = Released
       \<and> sem (fst (unit_step e take_done g' (Replying m reply))) = sem g' - 1
       \<and> unit_step e take_done g' (InFlight m c req) =
           (g', Replying m (handleRequest_reply e (SendRcv e c req)))"
    by (simp add: Let_def publishReply_sem)
  show ?thesis
    using bound dev last rel by blast
qed

theorem dispatcher_slots_bounded_witness:
  "NewGateway None Background ''main'' = Inr main_gw
   \<and> MaxConcurrentCommands = 4
   \<and> inflight (run burst (start main_gw)) = 4
   \<and> sem (gateway (run burst (start main_gw))) = 4
   \<and> units (run burst (start main_gw)) ! 0 =
       InFlight discover_msg (WithTimeout (WithCancel Background) RequestTimeout) (CanDetector 7)
   \<and> units (run burst (start main_gw)) ! 4 = AtSelect discover_msg
   \<and> units (run (burst @ burst_next) (start main_gw)) ! 0 = Released
   \<and> sem (gateway (run (burst @ burst_next) (start main_gw))) = 3
   \<and> sem (fst (unit_step up_env False (gateway (run burst (start main_gw)))
                 (Replying discover_msg CmdReply_zero))) = 3
   \<and> inflight (run (burst @ burst_next @ burst_refill) (start main_gw)) = 4
   \<and> sem (gateway (run (burst @ burst_next @ burst_refill) (start main_gw))) = 4"
proof -
  have n: "NewGateway None Background ''main'' = Inr main_gw"
    by (simp add: NewGateway_def main_gw_def)
  have a: "inflight (run burst (start main_gw)) = 4"
    by (simp add: inflight_def burst_run)
  have b: "inflight (run (burst @ burst_next @ burst_refill) (start main_gw)) = 4"
    by (simp add: inflight_def burst_refill_run)
  have u: "units (run burst (start main_gw)) =
     [InFlight discover_msg (WithTimeout (WithCancel Background) RequestTimeout) (CanDetector 7),
      InFlight discover_msg (WithTimeout (WithCancel Background) RequestTimeout) (CanDetector 7),
      InFlight discover_msg (WithTimeout (WithCancel Background) RequestTimeout) (CanDetector 7),
      InFlight discover_msg (WithTimeout (WithCancel Background) RequestTimeout) (CanDetector 7),
      AtSelect discover_msg]"
    by (rule burst_run)
  have next3: "burst_next = [Step 0 False up_env, Step 0 False up_env, Step 0 False up_env]"
    by (simp add: burst_next_def)
  note first = dispatcher_slots_bounded [OF n, where acts = burst and e = up_env
        and take_done = False and g' = "gateway (run burst (start main_gw))"
        and m = discover_msg and reply = CmdReply_zero and u = Released
        and c = Background and req = "CanDetector 7" and i = 0
        and ?t1.0 = False and ?t2.0 = False and ?t3.0 = False
        and ?e1.0 = up_env and ?e2.0 = up_env and ?e3.0 = up_env]
  note refilled = dispatcher_slots_bounded [OF n,
        where acts = "burst @ burst_next @ burst_refill" and e = up_env
        and take_done = False and g' = main_gw
        and m = discover_msg and reply = CmdReply_zero and u = Released
        and c = Background and req = "CanDetector 7" and i = 0
        and ?t1.0 = False and ?t2.0 = False and ?t3.0 = False
        and ?e1.0 = up_env and ?e2.0 = up_env and ?e3.0 = up_env]
  have s4: "sem (gateway (run burst (start main_gw))) = 4"
    using first a by (simp add: MaxConcurrentCommands_def)
  have r0: "units (run (burst @ burst_next) (start main_gw)) ! 0 = Released
          \<and> sem (gateway (run (burst @ burst_next) (start main_gw))) + 1 = 4"
    using first s4 by (simp add: u next3)
  have s3: "sem (fst (unit_step up_env False (gateway (run burst (start main_gw)))
                 (Replying discover_msg CmdReply_zero))) = 3"
    using first s4 by simp
  have s4': "sem (gateway (run (burst @ burst_next @ burst_refill) (start main_gw))) = 4"
    using refilled b by (simp add: MaxConcurrentCommands_def)
  show ?thesis
    using n a b s4 r0 s3 s4' by (simp add: u MaxConcurrentCommands_def)
qed

end
